theory Spec2Isabelle
  imports Complex_Main
begin

section \<open>Data model\<close>

text \<open>
  JavaScript numbers are modelled as real numbers: the comparisons, sums, maxima and
  roundings of the source are taken exactly, without the rounding of IEEE doubles and
  without NaN or infinities.

  Objects (CANNON bodies, THREE meshes) are shared and mutated in place and are compared
  by identity (\<^verbatim>\<open>Array.prototype.indexOf\<close>), so a body is a reference into a heap of
  body records.
\<close>

type_synonym ref = nat

datatype vec3 = Vec3 (vx: real) (vy: real) (vz: real)

text \<open>\<^verbatim>\<open>CANNON.Box\<close> carries its half extents; every other shape class fails the test
  \<^verbatim>\<open>shape instanceof CANNON.Box\<close>.\<close>

datatype shape = Box (halfExtents: vec3) | OtherShape

text \<open>A \<^verbatim>\<open>CANNON.Material\<close>: built from a name (physics.js, no friction given) or from
  an options object (blocks.js, friction and restitution given).\<close>

record material =
  mname :: string
  friction :: "real option"
  restitution :: "real option"

record contactMaterial =
  cm_first :: material
  cm_second :: material
  cm_friction :: real
  cm_restitution :: real
  contactEquationStiffness :: real
  contactEquationRelaxation :: real

text \<open>\<^verbatim>\<open>body.userData = { mesh: mesh, blockType: blockType }\<close> (blocks.js, createBlock).\<close>

record userData =
  mesh :: "ref option"
  blockType :: "string option"

text \<open>The fields of a \<^verbatim>\<open>CANNON.Body\<close> that the repository sets or reads. A damping
  that the repository does not set is \<open>None\<close> (the library's default).\<close>

record body =
  mass :: real
  position :: vec3
  shapes :: "shape list"
  bmaterial :: material
  linearDamping :: "real option"
  angularDamping :: "real option"
  userData :: "userData option"

text \<open>The state of a \<^verbatim>\<open>PhysicsWorld\<close> object together with the heap its references
  point into.\<close>

text \<open>Modelled from the spec: the physics collaborator's world container
  (\<^verbatim>\<open>CANNON.World\<close>, a dependency outside the repository) is the set of the bodies
  registered with it; \<^verbatim>\<open>world.addBody\<close> inserts a body and \<^verbatim>\<open>world.removeBody\<close>
  deletes it.\<close>

record PhysicsWorld =
  world :: "ref set"
  defaultMaterial :: material
  defaultContactMaterial :: contactMaterial
  bodies :: "ref list"
  groundBody :: "ref option"
  heap :: "ref \<Rightarrow> body"

section \<open>physics.js: the body registry\<close>

definition createGround :: "ref \<Rightarrow> PhysicsWorld \<Rightarrow> PhysicsWorld" where
  \<comment> \<open>\<open>g\<close> is the address of the body that \<^verbatim>\<open>new CANNON.Body\<close> allocates\<close>
  "createGround g s =
     s\<lparr> groundBody := Some g,
        heap := (heap s)(g :=
          \<lparr> mass = 0, position = Vec3 0 (-1) 0, shapes = [Box (Vec3 200 1 200)],
            bmaterial = defaultMaterial s, linearDamping = None, angularDamping = None,
            userData = None \<rparr>),
        world := insert g (world s) \<rparr>"

definition constructor :: "(ref \<Rightarrow> body) \<Rightarrow> ref \<Rightarrow> PhysicsWorld" where
  \<comment> \<open>\<open>h\<close> is the heap at the time of the call, \<open>g\<close> the address of the ground body\<close>
  "constructor h g =
     (let dm = \<lparr> mname = ''default'', friction = None, restitution = None \<rparr>;
          dcm = \<lparr> cm_first = dm, cm_second = dm, cm_friction = 5 / 10,
                  cm_restitution = 1 / 10, contactEquationStiffness = 100000000,
                  contactEquationRelaxation = 3 \<rparr>
      in createGround g
           \<lparr> world = {}, defaultMaterial = dm, defaultContactMaterial = dcm,
             bodies = [], groundBody = None, heap = h \<rparr>)"

definition addBody :: "ref \<Rightarrow> PhysicsWorld \<Rightarrow> PhysicsWorld" where
  "addBody b s =
     s\<lparr> heap := (heap s)(b := (heap s b)\<lparr> bmaterial := defaultMaterial s \<rparr>),
        world := insert b (world s),
        bodies := bodies s @ [b] \<rparr>"

text \<open>\<^verbatim>\<open>Array.prototype.indexOf\<close>: the first index holding the element, or -1.\<close>

fun indexOf :: "'a list \<Rightarrow> 'a \<Rightarrow> int" where
  "indexOf [] b = -1"
| "indexOf (a # as) b =
     (if a = b then 0 else (let i = indexOf as b in if i > -1 then i + 1 else -1))"

text \<open>\<^verbatim>\<open>xs.splice(index, 1)\<close> for an index that is in range.\<close>

definition splice1 :: "int \<Rightarrow> 'a list \<Rightarrow> 'a list" where
  "splice1 i xs = take (nat i) xs @ drop (nat i + 1) xs"

definition removeBody :: "ref \<Rightarrow> PhysicsWorld \<Rightarrow> PhysicsWorld" where
  "removeBody b s =
     (let index = indexOf (bodies s) b
      in if index > -1
         then s\<lparr> bodies := splice1 index (bodies s), world := world s - {b} \<rparr>
         else s)"

text \<open>\<^verbatim>\<open>reset\<close> iterates over a copy of the registry taken before the first removal.\<close>

definition reset :: "PhysicsWorld \<Rightarrow> PhysicsWorld" where
  "reset s = fold removeBody (bodies s) s"

section \<open>physics.js: geometric queries\<close>

text \<open>The guard shared by every query loop:
  \<^verbatim>\<open>body.userData && body.userData.blockType\<close> (a missing or empty tag is falsy), then
  \<^verbatim>\<open>body.shapes[0] instanceof CANNON.Box\<close> (false when there is no first shape). It
  yields the half extents the loop body goes on to read.\<close>

definition blockBox :: "body \<Rightarrow> vec3 option" where
  "blockBox bd =
     (case userData bd of
        None \<Rightarrow> None
      | Some ud \<Rightarrow>
          (case blockType ud of
             None \<Rightarrow> None
           | Some t \<Rightarrow>
               if t = [] then None
               else (case shapes bd of
                       Box bHalf # _ \<Rightarrow> Some bHalf
                     | _ \<Rightarrow> None)))"

fun maxHeightLoop :: "(ref \<Rightarrow> body) \<Rightarrow> ref list \<Rightarrow> real \<Rightarrow> real" where
  "maxHeightLoop h [] maxHeight = maxHeight"
| "maxHeightLoop h (b # bs) maxHeight =
     (case blockBox (h b) of
        Some bHalf \<Rightarrow> maxHeightLoop h bs (max maxHeight (vy (position (h b)) + vy bHalf))
      | None \<Rightarrow> maxHeightLoop h bs maxHeight)"

definition getMaxHeight :: "PhysicsWorld \<Rightarrow> real" where
  "getMaxHeight s = max 0 (maxHeightLoop (heap s) (bodies s) 0)"

definition overlap :: "vec3 \<Rightarrow> vec3 \<Rightarrow> vec3 \<Rightarrow> vec3 \<Rightarrow> bool" where
  "overlap pos hext bPos bHalf \<longleftrightarrow>
     \<bar>vx pos - vx bPos\<bar> < vx hext + vx bHalf \<and>
     \<bar>vy pos - vy bPos\<bar> < vy hext + vy bHalf \<and>
     \<bar>vz pos - vz bPos\<bar> < vz hext + vz bHalf"

fun collisionLoop :: "(ref \<Rightarrow> body) \<Rightarrow> vec3 \<Rightarrow> vec3 \<Rightarrow> ref list \<Rightarrow> bool" where
  "collisionLoop h pos hext [] = False"
| "collisionLoop h pos hext (b # bs) =
     (case blockBox (h b) of
        Some bHalf \<Rightarrow>
          if overlap pos hext (position (h b)) bHalf then True
          else collisionLoop h pos hext bs
      | None \<Rightarrow> collisionLoop h pos hext bs)"

definition checkCollision :: "PhysicsWorld \<Rightarrow> vec3 \<Rightarrow> vec3 \<Rightarrow> bool" where
  "checkCollision s pos hext = collisionLoop (heap s) pos hext (bodies s)"

text \<open>\<^verbatim>\<open>isValidPlacement(position, halfExtents, tolerance = 0.5)\<close>: an omitted tolerance
  (\<open>None\<close>) takes the default.\<close>

definition overlapTol :: "real \<Rightarrow> vec3 \<Rightarrow> vec3 \<Rightarrow> vec3 \<Rightarrow> vec3 \<Rightarrow> bool" where
  "overlapTol tolerance pos hext bPos bHalf \<longleftrightarrow>
     (let overlapX = \<bar>vx pos - vx bPos\<bar> < vx hext + vx bHalf - tolerance;
          overlapY = \<bar>vy pos - vy bPos\<bar> < vy hext + vy bHalf - tolerance;
          overlapZ = \<bar>vz pos - vz bPos\<bar> < vz hext + vz bHalf - tolerance
      in overlapX \<and> overlapY \<and> overlapZ)"

fun validLoop :: "(ref \<Rightarrow> body) \<Rightarrow> vec3 \<Rightarrow> vec3 \<Rightarrow> real \<Rightarrow> ref list \<Rightarrow> bool" where
  "validLoop h pos hext tolerance [] = True"
| "validLoop h pos hext tolerance (b # bs) =
     (case blockBox (h b) of
        Some bHalf \<Rightarrow>
          if overlapTol tolerance pos hext (position (h b)) bHalf then False
          else validLoop h pos hext tolerance bs
      | None \<Rightarrow> validLoop h pos hext tolerance bs)"

definition isValidPlacement :: "PhysicsWorld \<Rightarrow> vec3 \<Rightarrow> vec3 \<Rightarrow> real option \<Rightarrow> bool" where
  "isValidPlacement s pos hext tol =
     (let tolerance = (case tol of None \<Rightarrow> 5 / 10 | Some t \<Rightarrow> t)
      in validLoop (heap s) pos hext tolerance (bodies s))"

definition overlapX :: "vec3 \<Rightarrow> vec3 \<Rightarrow> vec3 \<Rightarrow> vec3 \<Rightarrow> real" where
  "overlapX pos hext bPos bHalf =
     max 0 (min (vx pos + vx hext) (vx bPos + vx bHalf) -
            max (vx pos - vx hext) (vx bPos - vx bHalf))"

definition overlapZ :: "vec3 \<Rightarrow> vec3 \<Rightarrow> vec3 \<Rightarrow> vec3 \<Rightarrow> real" where
  "overlapZ pos hext bPos bHalf =
     max 0 (min (vz pos + vz hext) (vz bPos + vz bHalf) -
            max (vz pos - vz hext) (vz bPos - vz bHalf))"

text \<open>The test one body passes in the loop of \<^verbatim>\<open>hasSupport\<close>: its top is near the
  candidate's bottom, and the footprints overlap enough on X and on Z.\<close>

definition supports :: "vec3 \<Rightarrow> vec3 \<Rightarrow> vec3 \<Rightarrow> vec3 \<Rightarrow> bool" where
  "supports pos hext bPos bHalf \<longleftrightarrow>
     (let bottomY = vy pos - vy hext;
          bTopY = vy bPos + vy bHalf
      in \<bar>bTopY - bottomY\<bar> < 1 \<and>
         (let minOverlapX = vx hext * (4 / 10);
              minOverlapZ = vz hext * (4 / 10)
          in overlapX pos hext bPos bHalf \<ge> minOverlapX \<and>
             overlapZ pos hext bPos bHalf \<ge> minOverlapZ))"

fun supportLoop :: "(ref \<Rightarrow> body) \<Rightarrow> vec3 \<Rightarrow> vec3 \<Rightarrow> ref list \<Rightarrow> bool" where
  "supportLoop h pos hext [] = False"
| "supportLoop h pos hext (b # bs) =
     (case blockBox (h b) of
        Some bHalf \<Rightarrow>
          if supports pos hext (position (h b)) bHalf then True
          else supportLoop h pos hext bs
      | None \<Rightarrow> supportLoop h pos hext bs)"

definition hasSupport :: "PhysicsWorld \<Rightarrow> vec3 \<Rightarrow> vec3 \<Rightarrow> bool" where
  "hasSupport s pos hext =
     (let bottomY = vy pos - vy hext
      in if bottomY \<le> 5 / 10 then True
         else supportLoop (heap s) pos hext (bodies s))"

section \<open>blocks.js: the block catalogue\<close>

record config =
  cname :: string
  size :: vec3
  color :: nat
  cmass :: real
  cfriction :: real

definition BLOCK_TYPES :: "string \<Rightarrow> config option" where
  "BLOCK_TYPES t =
     (if t = ''foundation'' then
        Some \<lparr> cname = ''Foundation Block'', size = Vec3 20 15 20, color = 0xFFE66D,
               cmass = 8, cfriction = 7 / 10 \<rparr>
      else if t = ''office'' then
        Some \<lparr> cname = ''Office Tower'', size = Vec3 10 30 10, color = 0x4ECDC4,
               cmass = 5, cfriction = 6 / 10 \<rparr>
      else if t = ''spire'' then
        Some \<lparr> cname = ''Spire'', size = Vec3 5 50 5, color = 0xFF6B6B,
               cmass = 3, cfriction = 5 / 10 \<rparr>
      else None)"

text \<open>\<^verbatim>\<open>createBlockBody\<close> returns the new body (\<open>None\<close> for \<^verbatim>\<open>null\<close>); the caller's
  heap receives it at a fresh address.\<close>

definition createBlockBody :: "string \<Rightarrow> vec3 \<Rightarrow> body option" where
  "createBlockBody t pos =
     (case BLOCK_TYPES t of
        None \<Rightarrow> None
      | Some cfg \<Rightarrow>
          Some \<lparr> mass = cmass cfg,
                 position = Vec3 (vx pos) (vy pos) (vz pos),
                 shapes = [Box (Vec3 (vx (size cfg) / 2) (vy (size cfg) / 2) (vz (size cfg) / 2))],
                 bmaterial = \<lparr> mname = [], friction = Some (cfriction cfg),
                               restitution = Some (1 / 10) \<rparr>,
                 linearDamping = Some (1 / 10), angularDamping = Some (3 / 10),
                 userData = None \<rparr>)"

text \<open>\<^verbatim>\<open>createBlock\<close>: \<open>m\<close> is the address of the mesh that \<^verbatim>\<open>createBlockMesh\<close> builds
  (it fails on the same block types as \<^verbatim>\<open>createBlockBody\<close>).\<close>

definition createBlock :: "string \<Rightarrow> vec3 \<Rightarrow> ref \<Rightarrow> body option" where
  "createBlock t pos m =
     (case createBlockBody t pos of
        None \<Rightarrow> None
      | Some bd \<Rightarrow> Some (bd\<lparr> userData := Some \<lparr> mesh = Some m, blockType = Some t \<rparr> \<rparr>))"

section \<open>controls.js: placement resolution\<close>

record GameControls =
  blockMeshes :: "ref list"
  gridSize :: real
  snapToGrid :: bool

text \<open>The fields of the constructor that placement reads.\<close>

definition newGameControls :: GameControls where
  "newGameControls = \<lparr> blockMeshes = [], gridSize = 5, snapToGrid = True \<rparr>"

definition setBlockMeshes :: "ref list \<Rightarrow> GameControls \<Rightarrow> GameControls" where
  "setBlockMeshes meshes c = c\<lparr> blockMeshes := meshes \<rparr>"

text \<open>One entry of the array that \<^verbatim>\<open>raycaster.intersectObjects\<close> returns.\<close>

record face =
  normal :: "vec3 option"

record intersection =
  distance :: real
  point :: vec3
  iface :: "face option"
  object :: ref

text \<open>What the THREE collaborator answers for the current pick ray (the library is
  outside the repository): the intersections with a list of meshes, the direction
  \<^verbatim>\<open>normal.clone().transformDirection(object.matrixWorld)\<close> of a face normal of an
  object, and the point of \<^verbatim>\<open>ray.intersectPlane(groundPlane, target)\<close> or \<open>None\<close> for
  \<^verbatim>\<open>null\<close>.\<close>

record pickRay =
  intersectObjects :: "ref list \<Rightarrow> intersection list"
  transformDirection :: "vec3 \<Rightarrow> ref \<Rightarrow> vec3"
  intersectPlane :: "vec3 option"

record placement =
  pposition :: vec3
  surfaceY :: real
  onBlock :: bool
  targetBlock :: "ref option"

text \<open>\<^verbatim>\<open>Math.round\<close> rounds to the nearest integer, a half towards \<open>+\<infinity>\<close>.\<close>

definition Math_round :: "real \<Rightarrow> real" where
  "Math_round r = of_int \<lfloor>r + 1 / 2\<rfloor>"

definition snapPositionToGrid :: "GameControls \<Rightarrow> vec3 \<Rightarrow> vec3" where
  "snapPositionToGrid c pos =
     (if \<not> snapToGrid c then pos
      else Vec3 (Math_round (vx pos / gridSize c) * gridSize c)
                (vy pos)
                (Math_round (vz pos / gridSize c) * gridSize c))"

text \<open>The test of one intersection: it has a face with a normal, and the normal in
  world space points mostly upward.\<close>

definition topFace :: "pickRay \<Rightarrow> intersection \<Rightarrow> bool" where
  "topFace r i \<longleftrightarrow>
     (case iface i of
        None \<Rightarrow> False
      | Some f \<Rightarrow>
          (case normal f of
             None \<Rightarrow> False
           | Some n \<Rightarrow> vy (transformDirection r n (object i)) > 5 / 10))"

fun blockLoop :: "GameControls \<Rightarrow> pickRay \<Rightarrow> intersection list \<Rightarrow> placement option" where
  "blockLoop c r [] = None"
| "blockLoop c r (i # is) =
     (if topFace r i then
        (let snapped = snapPositionToGrid c (point i)
         in Some \<lparr> pposition = Vec3 (vx snapped) (vy (point i)) (vz snapped),
                   surfaceY = vy (point i), onBlock = True,
                   targetBlock = Some (object i) \<rparr>)
      else blockLoop c r is)"

definition groundFallback :: "GameControls \<Rightarrow> pickRay \<Rightarrow> placement option" where
  "groundFallback c r =
     (case intersectPlane r of
        None \<Rightarrow> None
      | Some hit \<Rightarrow>
          (let clamped = Vec3 (max (-80) (min 80 (vx hit))) (vy hit)
                              (max (-80) (min 80 (vz hit)));
               snapped = snapPositionToGrid c clamped
           in Some \<lparr> pposition = Vec3 (vx snapped) 0 (vz snapped), surfaceY = 0,
                     onBlock = False, targetBlock = None \<rparr>))"

definition getPlacementPosition :: "GameControls \<Rightarrow> pickRay \<Rightarrow> placement option" where
  "getPlacementPosition c r =
     (case (if length (blockMeshes c) > 0
            then blockLoop c r (intersectObjects r (blockMeshes c))
            else None) of
        Some p \<Rightarrow> Some p
      | None \<Rightarrow> groundFallback c r)"

section \<open>State predicates and example worlds\<close>

text \<open>The invariant of the registry: the ground body is not in \<^verbatim>\<open>this.bodies\<close>.\<close>

definition groundFree :: "PhysicsWorld \<Rightarrow> bool" where
  "groundFree s = (case groundBody s of None \<Rightarrow> True | Some g \<Rightarrow> g \<notin> set (bodies s))"

text \<open>Every registered body carries the world's default material.\<close>

definition allDefault :: "PhysicsWorld \<Rightarrow> bool" where
  "allDefault s \<longleftrightarrow> (\<forall>b \<in> set (bodies s). bmaterial (heap s b) = defaultMaterial s)"

text \<open>The top-face heights of the registered bodies that pass the guard of the query
  loops.\<close>

definition topFaces :: "(ref \<Rightarrow> body) \<Rightarrow> ref list \<Rightarrow> real set" where
  "topFaces h bs =
     {vy (position (h b)) + vy bHalf | b bHalf. b \<in> set bs \<and> blockBox (h b) = Some bHalf}"

text \<open>A block as \<^verbatim>\<open>createBlock\<close> links it (material of the office type, a mesh, a
  block type), with the position and half extents of an example.\<close>

definition blockAt :: "vec3 \<Rightarrow> vec3 \<Rightarrow> body" where
  "blockAt pos hext =
     \<lparr> mass = 5, position = pos, shapes = [Box hext],
       bmaterial = \<lparr> mname = [], friction = Some (6 / 10), restitution = Some (1 / 10) \<rparr>,
       linearDamping = Some (1 / 10), angularDamping = Some (3 / 10),
       userData = Some \<lparr> mesh = Some 2, blockType = Some ''office'' \<rparr> \<rparr>"

text \<open>A new world (ground body at address 0) to which the body at address 7 has been
  added.\<close>

definition worldWith :: "body \<Rightarrow> PhysicsWorld" where
  "worldWith bd = addBody 7 (constructor (\<lambda>_. bd) 0)"

text \<open>Example pick rays over meshes at addresses 2 and 4: one that strikes only a side
  face, one that strikes a side face and then two top faces, and one that strikes nothing
  and misses the ground plane.\<close>

definition sidePick :: pickRay where
  "sidePick =
     \<lparr> intersectObjects = (\<lambda>ms. if ms = [] then []
          else [\<lparr> distance = 10, point = Vec3 12 7 3, iface = Some \<lparr> normal = Some (Vec3 1 0 0) \<rparr>,
                   object = 2 \<rparr>]),
       transformDirection = (\<lambda>n _. n),
       intersectPlane = Some (Vec3 93 0 (- 123 / 10)) \<rparr>"

definition topPick :: pickRay where
  "topPick =
     \<lparr> intersectObjects = (\<lambda>ms. if ms = [] then []
          else [\<lparr> distance = 10, point = Vec3 12 7 3, iface = Some \<lparr> normal = Some (Vec3 1 0 0) \<rparr>,
                   object = 2 \<rparr>,
                \<lparr> distance = 11, point = Vec3 13 15 4, iface = Some \<lparr> normal = Some (Vec3 0 1 0) \<rparr>,
                   object = 2 \<rparr>,
                \<lparr> distance = 40, point = Vec3 33 30 (- 8), iface = Some \<lparr> normal = Some (Vec3 0 1 0) \<rparr>,
                   object = 4 \<rparr>]),
       transformDirection = (\<lambda>n _. n),
       intersectPlane = Some (Vec3 93 0 (- 123 / 10)) \<rparr>"

definition skyPick :: pickRay where
  "skyPick = \<lparr> intersectObjects = (\<lambda>ms. []), transformDirection = (\<lambda>n _. n),
               intersectPlane = None \<rparr>"

section \<open>Auxiliary facts\<close>

lemmas world_defs = worldWith_def constructor_def createGround_def addBody_def Let_def

lemma indexOf_notin: "b \<notin> set xs \<Longrightarrow> indexOf xs b = -1"
  by (induction xs) (auto simp: Let_def)

lemma indexOf_in: "b \<in> set xs \<Longrightarrow> indexOf xs b \<ge> 0"
  by (induction xs) (auto simp: Let_def)

lemma indexOf_gt_iff: "indexOf xs b > -1 \<longleftrightarrow> b \<in> set xs"
proof (cases "b \<in> set xs")
  case True
  then show ?thesis using indexOf_in [OF True] by simp
next
  case False
  then show ?thesis by (simp add: indexOf_notin)
qed

lemma splice1_indexOf: "b \<in> set xs \<Longrightarrow> splice1 (indexOf xs b) xs = remove1 b xs"
proof (induction xs)
  case Nil
  then show ?case by simp
next
  case (Cons a xs)
  show ?case
  proof (cases "a = b")
    case True
    then show ?thesis by (simp add: splice1_def)
  next
    case False
    with Cons.prems have mem: "b \<in> set xs" by simp
    then have nonneg: "indexOf xs b \<ge> 0" by (rule indexOf_in)
    then have "nat (indexOf xs b + 1) = Suc (nat (indexOf xs b))" by simp
    with False mem nonneg Cons.IH show ?thesis
      by (simp add: splice1_def Let_def)
  qed
qed

lemma removeBody_eq:
  "removeBody b s =
     (if b \<in> set (bodies s)
      then s\<lparr> bodies := remove1 b (bodies s), world := world s - {b} \<rparr>
      else s)"
proof (cases "b \<in> set (bodies s)")
  case True
  then have "indexOf (bodies s) b > -1" by (simp only: indexOf_gt_iff)
  with True show ?thesis
    unfolding removeBody_def Let_def by (simp add: splice1_indexOf)
next
  case False
  then have "\<not> indexOf (bodies s) b > -1" by (simp only: indexOf_gt_iff not_False_eq_True)
  with False show ?thesis
    unfolding removeBody_def Let_def by simp
qed

lemma fold_removeBody:
  "bodies s = xs @ ys \<Longrightarrow>
   fold removeBody xs s = s\<lparr> bodies := ys, world := world s - set xs \<rparr>"
proof (induction xs arbitrary: s)
  case Nil
  then show ?case by simp
next
  case (Cons x xs)
  have step: "removeBody x s = s\<lparr> bodies := xs @ ys, world := world s - {x} \<rparr>"
    using Cons.prems by (simp add: removeBody_eq)
  have "fold removeBody xs (removeBody x s) =
        (removeBody x s)\<lparr> bodies := ys, world := world (removeBody x s) - set xs \<rparr>"
    by (rule Cons.IH) (simp add: step)
  moreover have "world s - {x} - set xs = world s - set (x # xs)"
    by auto
  ultimately show ?case
    by (simp add: step)
qed

lemma reset_eq: "reset s = s\<lparr> bodies := [], world := world s - set (bodies s) \<rparr>"
  unfolding reset_def using fold_removeBody [of s "bodies s" "[]"] by simp

lemma collisionLoop_iff:
  "collisionLoop h pos hext bs \<longleftrightarrow>
     (\<exists>b \<in> set bs. \<exists>bHalf. blockBox (h b) = Some bHalf \<and> overlap pos hext (position (h b)) bHalf)"
  by (induction bs) (auto split: option.splits)

lemma validLoop_iff:
  "validLoop h pos hext t bs \<longleftrightarrow>
     \<not> (\<exists>b \<in> set bs. \<exists>bHalf. blockBox (h b) = Some bHalf \<and> overlapTol t pos hext (position (h b)) bHalf)"
  by (induction bs) (auto split: option.splits)

lemma supportLoop_iff:
  "supportLoop h pos hext bs \<longleftrightarrow>
     (\<exists>b \<in> set bs. \<exists>bHalf. blockBox (h b) = Some bHalf \<and> supports pos hext (position (h b)) bHalf)"
  by (induction bs) (auto split: option.splits)

lemma topFaces_Nil: "topFaces h [] = {}"
  by (simp add: topFaces_def)

lemma topFaces_Cons:
  "topFaces h (b # bs) =
     (case blockBox (h b) of
        Some bHalf \<Rightarrow> insert (vy (position (h b)) + vy bHalf) (topFaces h bs)
      | None \<Rightarrow> topFaces h bs)"
  by (auto simp: topFaces_def split: option.splits)

lemma finite_topFaces: "finite (topFaces h bs)"
  by (induction bs) (auto simp: topFaces_Nil topFaces_Cons split: option.splits)

lemma maxHeightLoop_Max: "maxHeightLoop h bs m = Max (insert m (topFaces h bs))"
proof (induction bs arbitrary: m)
  case Nil
  then show ?case by (simp add: topFaces_Nil)
next
  case (Cons b bs)
  show ?case
  proof (cases "blockBox (h b)")
    case None
    then show ?thesis by (simp add: Cons.IH topFaces_Cons)
  next
    case (Some bHalf)
    let ?t = "vy (position (h b)) + vy bHalf"
    have "Max (insert (max m ?t) (topFaces h bs)) = Max (insert m (insert ?t (topFaces h bs)))"
      using finite_topFaces [of h bs]
      by (cases "topFaces h bs = {}") (simp_all add: max.assoc max.commute)
    with Some show ?thesis by (simp add: Cons.IH topFaces_Cons)
  qed
qed

lemma count_list_remove1: "b \<in> set xs \<Longrightarrow> count_list (remove1 b xs) b + 1 = count_list xs b"
  by (induction xs) auto

lemma count_list_notin: "count_list xs b = 0 \<Longrightarrow> b \<notin> set xs"
  by (induction xs) (auto split: if_splits)

lemma blockBox_blockAt: "blockBox (blockAt pos hext) = Some hext"
  by (simp add: blockBox_def blockAt_def)

lemma blockBox_material: "blockBox (bd\<lparr> bmaterial := m \<rparr>) = blockBox bd"
  by (simp add: blockBox_def split: option.splits)

lemma heap_worldWith:
  "heap (worldWith bd) 7 = bd\<lparr> bmaterial := \<lparr> mname = ''default'', friction = None, restitution = None \<rparr> \<rparr>"
  by (simp add: world_defs)

lemma bodies_worldWith: "bodies (worldWith bd) = [7]"
  by (simp add: world_defs)

lemma position_blockAt: "position (blockAt pos hext) = pos"
  by (simp add: blockAt_def)

lemmas example_simps = heap_worldWith bodies_worldWith blockBox_material blockBox_blockAt
  position_blockAt

lemma overlapTol_zero: "overlapTol 0 pos hext bPos bHalf = overlap pos hext bPos bHalf"
  by (simp add: overlapTol_def overlap_def)

lemma overlapTol_mono:
  "t \<le> t' \<Longrightarrow> overlapTol t' pos hext bPos bHalf \<Longrightarrow> overlapTol t pos hext bPos bHalf"
  by (simp add: overlapTol_def)

lemma allDefault_addBody: "allDefault s \<Longrightarrow> allDefault (addBody b s)"
  by (simp add: allDefault_def addBody_def)

lemma allDefault_constructor: "allDefault (constructor h g)"
  by (simp add: allDefault_def constructor_def createGround_def Let_def)

lemma createBlockBody_friction:
  "createBlockBody t pos = Some bd \<Longrightarrow>
   friction (bmaterial bd) =
     Some (if t = ''foundation'' then 7 / 10 else if t = ''office'' then 6 / 10 else 5 / 10)"
  unfolding createBlockBody_def BLOCK_TYPES_def
  by (cases "t = ''foundation''"; cases "t = ''office''"; cases "t = ''spire''") auto

lemma createBlock_material:
  "createBlockBody t pos = Some bd \<Longrightarrow> createBlock t pos m = Some bd' \<Longrightarrow>
   bmaterial bd' = bmaterial bd"
  by (auto simp: createBlock_def)

lemma constructor_material:
  "defaultMaterial (constructor h g) = \<lparr> mname = ''default'', friction = None, restitution = None \<rparr>"
  "defaultContactMaterial (constructor h g) =
     \<lparr> cm_first = \<lparr> mname = ''default'', friction = None, restitution = None \<rparr>,
       cm_second = \<lparr> mname = ''default'', friction = None, restitution = None \<rparr>,
       cm_friction = 5 / 10, cm_restitution = 1 / 10,
       contactEquationStiffness = 100000000, contactEquationRelaxation = 3 \<rparr>"
  by (simp_all add: constructor_def createGround_def Let_def)

lemma heap_addBody:
  "heap (addBody b s) = (heap s)(b := (heap s b)\<lparr> bmaterial := defaultMaterial s \<rparr>)"
  by (simp add: addBody_def)

lemma Math_round_near: "\<bar>Math_round r - r\<bar> \<le> 1 / 2"
  unfolding Math_round_def by linarith

lemma snap5_near: "\<bar>5 * real_of_int \<lfloor>x / 5 + 1 / 2\<rfloor> - (x::real)\<bar> \<le> 5 / 2"
  using Math_round_near [of "x / 5"] unfolding Math_round_def by linarith

lemma snap5_range:
  assumes "- 80 \<le> (x::real)" "x \<le> 80"
  shows "- 80 \<le> 5 * real_of_int \<lfloor>x / 5 + 1 / 2\<rfloor> \<and> 5 * real_of_int \<lfloor>x / 5 + 1 / 2\<rfloor> \<le> 80"
proof -
  have "\<lfloor>x / 5 + 1 / 2\<rfloor> \<le> (16::int)" "(- 16::int) \<le> \<lfloor>x / 5 + 1 / 2\<rfloor>"
    using assms by linarith+
  then have "real_of_int \<lfloor>x / 5 + 1 / 2\<rfloor> \<le> 16" "- 16 \<le> real_of_int \<lfloor>x / 5 + 1 / 2\<rfloor>"
    by linarith+
  then show ?thesis by linarith
qed

lemma snap_new:
  "snapPositionToGrid (setBlockMeshes meshes newGameControls) pos =
     Vec3 (5 * real_of_int \<lfloor>vx pos / 5 + 1 / 2\<rfloor>) (vy pos) (5 * real_of_int \<lfloor>vz pos / 5 + 1 / 2\<rfloor>)"
  by (simp add: snapPositionToGrid_def setBlockMeshes_def newGameControls_def Math_round_def)

lemma blockLoop_none: "(\<forall>i \<in> set hits. \<not> topFace r i) \<Longrightarrow> blockLoop c r hits = None"
  by (induction hits) auto

lemma blockLoop_first:
  assumes "sorted_wrt (\<lambda>i j. distance i \<le> distance j) hits" "\<exists>i \<in> set hits. topFace r i"
  shows "\<exists>i \<in> set hits. topFace r i \<and>
           (\<forall>j \<in> set hits. topFace r j \<longrightarrow> distance i \<le> distance j) \<and>
           blockLoop c r hits =
             Some \<lparr> pposition = Vec3 (vx (snapPositionToGrid c (point i))) (vy (point i))
                                     (vz (snapPositionToGrid c (point i))),
                    surfaceY = vy (point i), onBlock = True, targetBlock = Some (object i) \<rparr>"
  using assms
proof (induction hits)
  case Nil
  then show ?case by simp
next
  case (Cons a hits)
  show ?case
  proof (cases "topFace r a")
    case True
    with Cons.prems(1) show ?thesis
      by (intro bexI [of _ a]) (auto simp: Let_def)
  next
    case False
    with Cons.prems have "sorted_wrt (\<lambda>i j. distance i \<le> distance j) hits"
      and "\<exists>i \<in> set hits. topFace r i" by auto
    from Cons.IH [OF this] obtain i where "i \<in> set hits" "topFace r i"
      "\<forall>j \<in> set hits. topFace r j \<longrightarrow> distance i \<le> distance j"
      "blockLoop c r hits =
             Some \<lparr> pposition = Vec3 (vx (snapPositionToGrid c (point i))) (vy (point i))
                                     (vz (snapPositionToGrid c (point i))),
                    surfaceY = vy (point i), onBlock = True, targetBlock = Some (object i) \<rparr>"
      by blast
    with False show ?thesis
      by (intro bexI [of _ i]) auto
  qed
qed

section \<open>The claims\<close>

text \<open>
  Claim C1, as amended. \<^verbatim>\<open>isValidPlacement\<close> with tolerance 0 is the negation of
  \<^verbatim>\<open>checkCollision\<close>: where \<^verbatim>\<open>checkCollision\<close> is true it is false (a collision is an
  invalid placement). It grows more permissive with the tolerance: a placement valid at
  one tolerance is valid at every larger one, and a placement without collision is valid
  at every tolerance \<open>t \<ge> 0\<close>. For every \<open>t > 0\<close> there is a placement within \<open>t\<close> of a
  block, inside it by \<open>t / 2\<close>, that \<^verbatim>\<open>checkCollision\<close> reports as a collision and
  \<^verbatim>\<open>isValidPlacement\<close> with tolerance \<open>t\<close> accepts. An omitted tolerance is 0.5.
\<close>

theorem isValidPlacement_permissive:
  "isValidPlacement s pos hext (Some 0) = (\<not> checkCollision s pos hext) \<and>
   (checkCollision s pos hext \<longrightarrow> \<not> isValidPlacement s pos hext (Some 0)) \<and>
   (t \<le> t' \<and> isValidPlacement s pos hext (Some t) \<longrightarrow> isValidPlacement s pos hext (Some t')) \<and>
   (0 \<le> t \<and> \<not> checkCollision s pos hext \<longrightarrow> isValidPlacement s pos hext (Some t)) \<and>
   (0 < t \<longrightarrow>
      checkCollision (worldWith (blockAt (Vec3 0 0 0) (Vec3 5 5 5)))
        (Vec3 (max 0 (10 - t / 2)) 0 0) (Vec3 5 5 5) \<and>
      isValidPlacement (worldWith (blockAt (Vec3 0 0 0) (Vec3 5 5 5)))
        (Vec3 (max 0 (10 - t / 2)) 0 0) (Vec3 5 5 5) (Some t)) \<and>
   isValidPlacement s pos hext None = isValidPlacement s pos hext (Some (5 / 10))"
proof -
  have zero: "isValidPlacement s pos hext (Some 0) = (\<not> checkCollision s pos hext)"
    by (simp add: isValidPlacement_def checkCollision_def validLoop_iff collisionLoop_iff
        overlapTol_zero)
  have mono: "isValidPlacement s pos hext (Some b)" if "a \<le> b" "isValidPlacement s pos hext (Some a)"
    for a b
    using that overlapTol_mono [of a b pos hext]
    by (auto simp: isValidPlacement_def validLoop_iff)
  have ex: "checkCollision (worldWith (blockAt (Vec3 0 0 0) (Vec3 5 5 5)))
        (Vec3 (max 0 (10 - t / 2)) 0 0) (Vec3 5 5 5) \<and>
      isValidPlacement (worldWith (blockAt (Vec3 0 0 0) (Vec3 5 5 5)))
        (Vec3 (max 0 (10 - t / 2)) 0 0) (Vec3 5 5 5) (Some t)" if "0 < t"
    using that
    by (simp add: checkCollision_def isValidPlacement_def overlap_def overlapTol_def
        example_simps max_def)
  have dflt: "isValidPlacement s pos hext None = isValidPlacement s pos hext (Some (5 / 10))"
    by (simp add: isValidPlacement_def)
  from zero mono [of t t'] mono [of 0 t] ex dflt show ?thesis by blast
qed

theorem isValidPlacement_permissive_witness:
  "checkCollision (worldWith (blockAt (Vec3 0 0 0) (Vec3 5 5 5))) (Vec3 (39 / 4) 0 0) (Vec3 5 5 5) \<and>
   \<not> isValidPlacement (worldWith (blockAt (Vec3 0 0 0) (Vec3 5 5 5))) (Vec3 (39 / 4) 0 0)
       (Vec3 5 5 5) (Some 0) \<and>
   isValidPlacement (worldWith (blockAt (Vec3 0 0 0) (Vec3 5 5 5))) (Vec3 (39 / 4) 0 0)
       (Vec3 5 5 5) (Some (1 / 2)) \<and>
   isValidPlacement (worldWith (blockAt (Vec3 0 0 0) (Vec3 5 5 5))) (Vec3 (39 / 4) 0 0)
       (Vec3 5 5 5) (Some 1)"
  using isValidPlacement_permissive [of "worldWith (blockAt (Vec3 0 0 0) (Vec3 5 5 5))"
          "Vec3 (39 / 4) 0 0" "Vec3 5 5 5" "1 / 2" 1]
  by (simp add: max_def)

text \<open>
  The claim as stated fails: a candidate at the place of an existing block collides, and
  \<^verbatim>\<open>isValidPlacement\<close> with tolerance 0 returns false there, not true.
\<close>

theorem collision_valid_counterexample:
  "checkCollision (worldWith (blockAt (Vec3 0 0 0) (Vec3 5 5 5))) (Vec3 0 0 0) (Vec3 5 5 5) \<and>
   \<not> isValidPlacement (worldWith (blockAt (Vec3 0 0 0) (Vec3 5 5 5))) (Vec3 0 0 0) (Vec3 5 5 5)
       (Some 0)"
  by (simp add: checkCollision_def isValidPlacement_def overlap_def overlapTol_def example_simps)

text \<open>
  Claim C2. \<^verbatim>\<open>hasSupport(position, halfExtents)\<close> is true exactly when (a) the bottom
  face of the candidate, \<open>position.y - halfExtents.y\<close>, is at most 0.5 (ground support), or
  (b) some dynamic body has its top face less than 1.0 from the candidate's bottom face
  and overlaps the candidate, on X and on Z, by at least 0.4 times the candidate's half
  extent on that axis, the overlap being the length of the intersection of the two
  projections, clamped at 0. A dynamic body is a registered body that the loop accepts
  (a block type, a box as first shape). In particular it is true whenever the bottom face
  is at most 0.5, whatever bodies exist, and false for a bottom face at 95 when no such
  body has its top face within 1.0 of 95.
\<close>

theorem hasSupport_iff:
  "(hasSupport s pos hext \<longleftrightarrow>
      vy pos - vy hext \<le> 5 / 10 \<or>
      (\<exists>b \<in> set (bodies s). \<exists>bHalf. blockBox (heap s b) = Some bHalf \<and>
         \<bar>(vy (position (heap s b)) + vy bHalf) - (vy pos - vy hext)\<bar> < 1 \<and>
         max 0 (min (vx pos + vx hext) (vx (position (heap s b)) + vx bHalf) -
                max (vx pos - vx hext) (vx (position (heap s b)) - vx bHalf))
           \<ge> 4 / 10 * vx hext \<and>
         max 0 (min (vz pos + vz hext) (vz (position (heap s b)) + vz bHalf) -
                max (vz pos - vz hext) (vz (position (heap s b)) - vz bHalf))
           \<ge> 4 / 10 * vz hext)) \<and>
   (vy pos - vy hext \<le> 5 / 10 \<longrightarrow> hasSupport s pos hext) \<and>
   (vy pos - vy hext = 95 \<and>
    (\<forall>b \<in> set (bodies s). \<forall>bHalf. blockBox (heap s b) = Some bHalf \<longrightarrow>
       \<not> \<bar>(vy (position (heap s b)) + vy bHalf) - 95\<bar> < 1) \<longrightarrow>
    \<not> hasSupport s pos hext)"
proof -
  have main: "hasSupport s pos hext \<longleftrightarrow>
      vy pos - vy hext \<le> 5 / 10 \<or>
      (\<exists>b \<in> set (bodies s). \<exists>bHalf. blockBox (heap s b) = Some bHalf \<and>
         \<bar>(vy (position (heap s b)) + vy bHalf) - (vy pos - vy hext)\<bar> < 1 \<and>
         max 0 (min (vx pos + vx hext) (vx (position (heap s b)) + vx bHalf) -
                max (vx pos - vx hext) (vx (position (heap s b)) - vx bHalf))
           \<ge> 4 / 10 * vx hext \<and>
         max 0 (min (vz pos + vz hext) (vz (position (heap s b)) + vz bHalf) -
                max (vz pos - vz hext) (vz (position (heap s b)) - vz bHalf))
           \<ge> 4 / 10 * vz hext)"
    unfolding hasSupport_def Let_def supportLoop_iff supports_def overlapX_def overlapZ_def
    by (simp add: mult.commute)
  then have ground: "vy pos - vy hext \<le> 5 / 10 \<longrightarrow> hasSupport s pos hext"
    by blast
  have floating: "\<not> hasSupport s pos hext"
    if "vy pos - vy hext = 95 \<and>
    (\<forall>b \<in> set (bodies s). \<forall>bHalf. blockBox (heap s b) = Some bHalf \<longrightarrow>
       \<not> \<bar>(vy (position (heap s b)) + vy bHalf) - 95\<bar> < 1)"
    using that unfolding main by auto
  from main ground floating show ?thesis by blast
qed

theorem hasSupport_iff_witness:
  "hasSupport (worldWith (blockAt (Vec3 0 40 0) (Vec3 5 5 5))) (Vec3 0 5 0) (Vec3 5 5 5) \<and>
   hasSupport (worldWith (blockAt (Vec3 0 40 0) (Vec3 5 5 5))) (Vec3 3 (251 / 5) 0) (Vec3 5 5 5) \<and>
   \<not> hasSupport (worldWith (blockAt (Vec3 0 40 0) (Vec3 5 5 5))) (Vec3 9 (251 / 5) 0) (Vec3 5 5 5) \<and>
   \<not> hasSupport (worldWith (blockAt (Vec3 0 40 0) (Vec3 5 5 5))) (Vec3 0 100 0) (Vec3 5 5 5)"
  using hasSupport_iff [of "worldWith (blockAt (Vec3 0 40 0) (Vec3 5 5 5))" "Vec3 0 5 0" "Vec3 5 5 5"]
        hasSupport_iff [of "worldWith (blockAt (Vec3 0 40 0) (Vec3 5 5 5))" "Vec3 3 (251 / 5) 0" "Vec3 5 5 5"]
        hasSupport_iff [of "worldWith (blockAt (Vec3 0 40 0) (Vec3 5 5 5))" "Vec3 9 (251 / 5) 0" "Vec3 5 5 5"]
        hasSupport_iff [of "worldWith (blockAt (Vec3 0 40 0) (Vec3 5 5 5))" "Vec3 0 100 0" "Vec3 5 5 5"]
  by (simp add: example_simps)

text \<open>
  Claim C3. When the pick ray has no qualifying block-surface intersection (there are no
  block meshes, or no intersection has a face normal whose world-space Y exceeds 0.5):
  if the ray meets the ground plane, \<^verbatim>\<open>getPlacementPosition\<close> returns an on-ground
  candidate (\<^verbatim>\<open>onBlock\<close> false, no target, resting height and Y exactly 0) whose X and Z
  are the hit's X and Z clamped to [-80, 80] and then rounded to the nearest multiple of
  the grid size 5, hence multiples of 5 within [-80, 80]; if the ray does not meet the
  ground plane, the result is \<^verbatim>\<open>null\<close>. The controls are those of the constructor with
  any list of block meshes set.
\<close>

theorem ground_placement:
  assumes "meshes = [] \<or> (\<forall>i \<in> set (intersectObjects r meshes). \<not> topFace r i)"
  shows "(\<forall>hit. intersectPlane r = Some hit \<longrightarrow>
           (\<exists>kx kz :: int.
              getPlacementPosition (setBlockMeshes meshes newGameControls) r =
                Some \<lparr> pposition = Vec3 (5 * of_int kx) 0 (5 * of_int kz), surfaceY = 0,
                       onBlock = False, targetBlock = None \<rparr> \<and>
              kx = \<lfloor>max (- 80) (min 80 (vx hit)) / 5 + 1 / 2\<rfloor> \<and>
              kz = \<lfloor>max (- 80) (min 80 (vz hit)) / 5 + 1 / 2\<rfloor> \<and>
              \<bar>5 * of_int kx - max (- 80) (min 80 (vx hit))\<bar> \<le> 5 / 2 \<and>
              \<bar>5 * of_int kz - max (- 80) (min 80 (vz hit))\<bar> \<le> 5 / 2 \<and>
              - 80 \<le> 5 * real_of_int kx \<and> 5 * real_of_int kx \<le> 80 \<and>
              - 80 \<le> 5 * real_of_int kz \<and> 5 * real_of_int kz \<le> 80)) \<and>
         (intersectPlane r = None \<longrightarrow>
            getPlacementPosition (setBlockMeshes meshes newGameControls) r = None)"
proof -
  let ?c = "setBlockMeshes meshes newGameControls"
  have meshes: "blockMeshes ?c = meshes"
    by (simp add: setBlockMeshes_def newGameControls_def)
  have noblock: "(if length (blockMeshes ?c) > 0
            then blockLoop ?c r (intersectObjects r (blockMeshes ?c)) else None) = None"
    using assms by (auto simp: meshes blockLoop_none)
  have fallback: "getPlacementPosition ?c r = groundFallback ?c r"
    unfolding getPlacementPosition_def noblock by simp
  have absent: "intersectPlane r = None \<longrightarrow> getPlacementPosition ?c r = None"
    by (simp add: fallback groundFallback_def)
  have hit: "\<exists>kx kz :: int.
              getPlacementPosition ?c r =
                Some \<lparr> pposition = Vec3 (5 * of_int kx) 0 (5 * of_int kz), surfaceY = 0,
                       onBlock = False, targetBlock = None \<rparr> \<and>
              kx = \<lfloor>max (- 80) (min 80 (vx hit)) / 5 + 1 / 2\<rfloor> \<and>
              kz = \<lfloor>max (- 80) (min 80 (vz hit)) / 5 + 1 / 2\<rfloor> \<and>
              \<bar>5 * of_int kx - max (- 80) (min 80 (vx hit))\<bar> \<le> 5 / 2 \<and>
              \<bar>5 * of_int kz - max (- 80) (min 80 (vz hit))\<bar> \<le> 5 / 2 \<and>
              - 80 \<le> 5 * real_of_int kx \<and> 5 * real_of_int kx \<le> 80 \<and>
              - 80 \<le> 5 * real_of_int kz \<and> 5 * real_of_int kz \<le> 80"
    if "intersectPlane r = Some hit" for hit
  proof -
    let ?x = "max (- 80) (min 80 (vx hit))" and ?z = "max (- 80) (min 80 (vz hit))"
    have "getPlacementPosition ?c r =
            Some \<lparr> pposition = Vec3 (5 * of_int \<lfloor>?x / 5 + 1 / 2\<rfloor>) 0 (5 * of_int \<lfloor>?z / 5 + 1 / 2\<rfloor>),
                   surfaceY = 0, onBlock = False, targetBlock = None \<rparr>"
      using that by (simp add: fallback groundFallback_def snap_new Let_def)
    moreover have "- 80 \<le> ?x" "?x \<le> 80" "- 80 \<le> ?z" "?z \<le> 80" by simp_all
    ultimately show ?thesis
      using snap5_near [of ?x] snap5_near [of ?z] snap5_range [of ?x] snap5_range [of ?z]
      by blast
  qed
  from hit absent show ?thesis by blast
qed

theorem ground_placement_witness:
  "list_all (\<lambda>i. \<not> topFace sidePick i) (intersectObjects sidePick [2]) \<and>
   intersectPlane sidePick = Some (Vec3 93 0 (- 123 / 10)) \<and>
   getPlacementPosition (setBlockMeshes [2] newGameControls) sidePick =
     Some \<lparr> pposition = Vec3 80 0 (- 10), surfaceY = 0, onBlock = False, targetBlock = None \<rparr> \<and>
   intersectPlane skyPick = None \<and>
   getPlacementPosition (setBlockMeshes [] newGameControls) skyPick = None"
proof -
  have side: "[2::nat] = [] \<or> (\<forall>i \<in> set (intersectObjects sidePick [2]). \<not> topFace sidePick i)"
    by (simp add: sidePick_def topFace_def)
  have sky: "([]::nat list) = [] \<or> (\<forall>i \<in> set (intersectObjects skyPick []). \<not> topFace skyPick i)"
    by simp
  have plane: "intersectPlane sidePick = Some (Vec3 93 0 (- 123 / 10))" "intersectPlane skyPick = None"
    by (simp_all add: sidePick_def skyPick_def)
  from ground_placement [OF side] plane(1) obtain kx kz :: int where
    "getPlacementPosition (setBlockMeshes [2] newGameControls) sidePick =
       Some \<lparr> pposition = Vec3 (5 * of_int kx) 0 (5 * of_int kz), surfaceY = 0,
              onBlock = False, targetBlock = None \<rparr>"
    "kx = \<lfloor>max (- 80) (min 80 (vx (Vec3 93 0 (- 123 / 10)))) / 5 + 1 / 2\<rfloor>"
    "kz = \<lfloor>max (- 80) (min 80 (vz (Vec3 93 0 (- 123 / 10)))) / 5 + 1 / 2\<rfloor>"
    by blast
  moreover have "\<lfloor>max (- 80) (min 80 (vx (Vec3 93 0 (- 123 / 10)))) / 5 + 1 / 2\<rfloor> = (16::int)"
    by simp
  moreover have "\<lfloor>max (- 80) (min 80 (vz (Vec3 93 0 (- 123 / 10)))) / 5 + 1 / 2\<rfloor> = (- 2::int)"
    by (simp add: floor_eq_iff)
  ultimately have "getPlacementPosition (setBlockMeshes [2] newGameControls) sidePick =
     Some \<lparr> pposition = Vec3 80 0 (- 10), surfaceY = 0, onBlock = False, targetBlock = None \<rparr>"
    by simp
  moreover have "list_all (\<lambda>i. \<not> topFace sidePick i) (intersectObjects sidePick [2])"
    by (simp add: sidePick_def topFace_def)
  ultimately show ?thesis
    using plane ground_placement [OF sky] by simp
qed

text \<open>
  Claim C4. When the pick ray has an intersection with a block mesh whose face normal
  has world-space Y above 0.5, \<^verbatim>\<open>getPlacementPosition\<close> returns an on-block candidate
  built from a nearest such intersection: \<^verbatim>\<open>onBlock\<close> true, the struck object as target,
  \<^verbatim>\<open>surfaceY\<close> and the candidate's Y equal to the intersection's Y unchanged, X and Z
  rounded to the nearest multiple of the grid size 5. The raycaster is taken to return
  its intersections nearest first, and none for an empty list of meshes.
\<close>

theorem block_placement:
  assumes "intersectObjects r [] = []"
    and "sorted_wrt (\<lambda>i j. distance i \<le> distance j) (intersectObjects r meshes)"
    and "\<exists>i \<in> set (intersectObjects r meshes). topFace r i"
  shows "\<exists>i \<in> set (intersectObjects r meshes). \<exists>kx kz :: int.
           topFace r i \<and>
           (\<forall>j \<in> set (intersectObjects r meshes). topFace r j \<longrightarrow> distance i \<le> distance j) \<and>
           getPlacementPosition (setBlockMeshes meshes newGameControls) r =
             Some \<lparr> pposition = Vec3 (5 * of_int kx) (vy (point i)) (5 * of_int kz),
                    surfaceY = vy (point i), onBlock = True, targetBlock = Some (object i) \<rparr> \<and>
           kx = \<lfloor>vx (point i) / 5 + 1 / 2\<rfloor> \<and> kz = \<lfloor>vz (point i) / 5 + 1 / 2\<rfloor> \<and>
           \<bar>5 * of_int kx - vx (point i)\<bar> \<le> 5 / 2 \<and>
           \<bar>5 * of_int kz - vz (point i)\<bar> \<le> 5 / 2"
proof -
  let ?c = "setBlockMeshes meshes newGameControls"
  have meshes: "blockMeshes ?c = meshes"
    by (simp add: setBlockMeshes_def newGameControls_def)
  have nonempty: "meshes \<noteq> []"
    using assms(1,3) by auto
  from blockLoop_first [OF assms(2,3), of ?c] obtain i where i:
    "i \<in> set (intersectObjects r meshes)" "topFace r i"
    "\<forall>j \<in> set (intersectObjects r meshes). topFace r j \<longrightarrow> distance i \<le> distance j"
    "blockLoop ?c r (intersectObjects r meshes) =
       Some \<lparr> pposition = Vec3 (vx (snapPositionToGrid ?c (point i))) (vy (point i))
                               (vz (snapPositionToGrid ?c (point i))),
              surfaceY = vy (point i), onBlock = True, targetBlock = Some (object i) \<rparr>"
    by blast
  have "getPlacementPosition ?c r =
          Some \<lparr> pposition = Vec3 (5 * of_int \<lfloor>vx (point i) / 5 + 1 / 2\<rfloor>) (vy (point i))
                                  (5 * of_int \<lfloor>vz (point i) / 5 + 1 / 2\<rfloor>),
                 surfaceY = vy (point i), onBlock = True, targetBlock = Some (object i) \<rparr>"
    using nonempty i(4) by (simp add: getPlacementPosition_def meshes snap_new)
  with i(1-3) snap5_near [of "vx (point i)"] snap5_near [of "vz (point i)"] show ?thesis
    by blast
qed

theorem block_placement_witness:
  "intersectObjects topPick [] = [] \<and>
   sorted_wrt (\<lambda>i j. distance i \<le> distance j) (intersectObjects topPick [2, 4]) \<and>
   (\<exists>i \<in> set (intersectObjects topPick [2, 4]). topFace topPick i) \<and>
   getPlacementPosition (setBlockMeshes [2, 4] newGameControls) topPick =
     Some \<lparr> pposition = Vec3 15 15 5, surfaceY = 15, onBlock = True, targetBlock = Some 2 \<rparr>"
proof -
  have contract: "intersectObjects topPick [] = []"
    by (simp add: topPick_def)
  have sorted: "sorted_wrt (\<lambda>i j. distance i \<le> distance j) (intersectObjects topPick [2, 4])"
    by (simp add: topPick_def)
  have ex: "\<exists>i \<in> set (intersectObjects topPick [2, 4]). topFace topPick i"
    by (simp add: topPick_def topFace_def)
  from block_placement [OF contract sorted ex] obtain i where i:
    "i \<in> set (intersectObjects topPick [2, 4])" "topFace topPick i"
    "\<forall>j \<in> set (intersectObjects topPick [2, 4]). topFace topPick j \<longrightarrow> distance i \<le> distance j"
    "getPlacementPosition (setBlockMeshes [2, 4] newGameControls) topPick =
       Some \<lparr> pposition = Vec3 (5 * of_int \<lfloor>vx (point i) / 5 + 1 / 2\<rfloor>) (vy (point i))
                               (5 * of_int \<lfloor>vz (point i) / 5 + 1 / 2\<rfloor>),
              surfaceY = vy (point i), onBlock = True, targetBlock = Some (object i) \<rparr>"
    by blast
  from i(1,2) have cases: "distance i = 11 \<or> distance i = 40"
    by (auto simp: topPick_def topFace_def)
  from i(3) have "distance i \<le> 11"
    by (simp add: topPick_def topFace_def)
  with cases have "distance i = 11" by simp
  with i(1) have "i = \<lparr> distance = 11, point = Vec3 13 15 4,
      iface = Some \<lparr> normal = Some (Vec3 0 1 0) \<rparr>, object = 2 \<rparr>"
    by (auto simp: topPick_def)
  moreover have "\<lfloor>(13::real) / 5 + 1 / 2\<rfloor> = 3" "\<lfloor>(4::real) / 5 + 1 / 2\<rfloor> = 1"
    by (simp_all add: floor_eq_iff)
  ultimately have "getPlacementPosition (setBlockMeshes [2, 4] newGameControls) topPick =
     Some \<lparr> pposition = Vec3 15 15 5, surfaceY = 15, onBlock = True, targetBlock = Some 2 \<rparr>"
    using i(4) by simp
  with contract sorted ex show ?thesis by blast
qed

text \<open>
  Claim C5, as amended. \<^verbatim>\<open>reset()\<close> empties the registry and removes exactly the
  registered bodies from the physics world; the ground-body field and the heap are
  untouched, and the ground body persists in the physics world provided it was not
  itself in the registry (which holds unless \<^verbatim>\<open>addBody\<close> was given the ground body).
  It is idempotent: on an empty registry it changes nothing, and a second reset changes
  nothing. After any reset \<^verbatim>\<open>getMaxHeight()\<close> is 0 and \<^verbatim>\<open>checkCollision\<close> is false for
  every position and half extents.
\<close>

theorem reset_clears:
  "bodies (reset s) = [] \<and>
   world (reset s) = world s - set (bodies s) \<and>
   groundBody (reset s) = groundBody s \<and>
   heap (reset s) = heap s \<and>
   (\<forall>g. groundBody s = Some g \<and> g \<in> world s \<and> g \<notin> set (bodies s) \<longrightarrow> g \<in> world (reset s)) \<and>
   (bodies s = [] \<longrightarrow> reset s = s) \<and>
   reset (reset s) = reset s \<and>
   getMaxHeight (reset s) = 0 \<and>
   \<not> checkCollision (reset s) pos hext"
  by (simp add: reset_eq getMaxHeight_def checkCollision_def)

theorem reset_clears_witness:
  "bodies (worldWith (blockAt (Vec3 0 40 0) (Vec3 5 5 5))) = [7] \<and>
   groundBody (worldWith (blockAt (Vec3 0 40 0) (Vec3 5 5 5))) = Some 0 \<and>
   0 \<in> world (worldWith (blockAt (Vec3 0 40 0) (Vec3 5 5 5))) \<and>
   0 \<in> world (reset (worldWith (blockAt (Vec3 0 40 0) (Vec3 5 5 5)))) \<and>
   bodies (reset (worldWith (blockAt (Vec3 0 40 0) (Vec3 5 5 5)))) = [] \<and>
   getMaxHeight (reset (worldWith (blockAt (Vec3 0 40 0) (Vec3 5 5 5)))) = 0 \<and>
   bodies (constructor (\<lambda>_. blockAt (Vec3 0 40 0) (Vec3 5 5 5)) 0) = [] \<and>
   reset (constructor (\<lambda>_. blockAt (Vec3 0 40 0) (Vec3 5 5 5)) 0) =
     constructor (\<lambda>_. blockAt (Vec3 0 40 0) (Vec3 5 5 5)) 0"
  using reset_clears [of "worldWith (blockAt (Vec3 0 40 0) (Vec3 5 5 5))"]
        reset_clears [of "constructor (\<lambda>_. blockAt (Vec3 0 40 0) (Vec3 5 5 5)) 0"]
  by (simp add: world_defs)

text \<open>
  The claim as stated fails in a world whose registry holds the ground body, as it does
  after \<^verbatim>\<open>addBody\<close> was given the ground body: \<^verbatim>\<open>reset()\<close> then calls \<^verbatim>\<open>removeBody\<close> on
  the ground body too, and the ground body is no longer in the physics world.
\<close>

theorem reset_ground_counterexample:
  "groundBody (addBody 0 (worldWith (blockAt (Vec3 0 40 0) (Vec3 5 5 5)))) = Some 0 \<and>
   bodies (addBody 0 (worldWith (blockAt (Vec3 0 40 0) (Vec3 5 5 5)))) = [7, 0] \<and>
   0 \<in> world (addBody 0 (worldWith (blockAt (Vec3 0 40 0) (Vec3 5 5 5)))) \<and>
   bodies (reset (addBody 0 (worldWith (blockAt (Vec3 0 40 0) (Vec3 5 5 5))))) = [] \<and>
   0 \<notin> world (reset (addBody 0 (worldWith (blockAt (Vec3 0 40 0) (Vec3 5 5 5)))))"
  by (simp add: reset_eq world_defs)

text \<open>
  Claim C6. \<^verbatim>\<open>checkCollision(position, halfExtents)\<close> is true exactly when some dynamic
  body overlaps the candidate box on all three axes at once, each axis compared with a
  strict \<open><\<close>. A dynamic body is a registered body that the loop accepts: it carries a
  block type and its first shape is a box, whose half extents are the body's box (every
  body that \<^verbatim>\<open>createBlock\<close> builds is one). With no registered body the answer is false.
  With a single 10x10x10 box centred at (20,0,0), the query with half extents (5,5,5)
  is true at (20,0,0), false at (40,0,0), and false at (30,0,0) where the faces touch.
\<close>

theorem checkCollision_overlap:
  "(checkCollision s pos hext \<longleftrightarrow>
      (\<exists>b \<in> set (bodies s). \<exists>bHalf. blockBox (heap s b) = Some bHalf \<and>
         \<bar>vx pos - vx (position (heap s b))\<bar> < vx hext + vx bHalf \<and>
         \<bar>vy pos - vy (position (heap s b))\<bar> < vy hext + vy bHalf \<and>
         \<bar>vz pos - vz (position (heap s b))\<bar> < vz hext + vz bHalf)) \<and>
   (bodies s = [] \<longrightarrow> \<not> checkCollision s pos hext) \<and>
   checkCollision (worldWith (blockAt (Vec3 20 0 0) (Vec3 5 5 5))) (Vec3 20 0 0) (Vec3 5 5 5) \<and>
   \<not> checkCollision (worldWith (blockAt (Vec3 20 0 0) (Vec3 5 5 5))) (Vec3 40 0 0) (Vec3 5 5 5) \<and>
   \<not> checkCollision (worldWith (blockAt (Vec3 20 0 0) (Vec3 5 5 5))) (Vec3 30 0 0) (Vec3 5 5 5)"
proof -
  have "checkCollision s pos hext \<longleftrightarrow>
      (\<exists>b \<in> set (bodies s). \<exists>bHalf. blockBox (heap s b) = Some bHalf \<and>
         \<bar>vx pos - vx (position (heap s b))\<bar> < vx hext + vx bHalf \<and>
         \<bar>vy pos - vy (position (heap s b))\<bar> < vy hext + vy bHalf \<and>
         \<bar>vz pos - vz (position (heap s b))\<bar> < vz hext + vz bHalf)"
    unfolding checkCollision_def collisionLoop_iff overlap_def ..
  moreover have "bodies s = [] \<longrightarrow> \<not> checkCollision s pos hext"
    by (simp add: checkCollision_def)
  moreover have
    "checkCollision (worldWith (blockAt (Vec3 20 0 0) (Vec3 5 5 5))) (Vec3 20 0 0) (Vec3 5 5 5)"
    by (simp add: checkCollision_def overlap_def example_simps)
  moreover have
    "\<not> checkCollision (worldWith (blockAt (Vec3 20 0 0) (Vec3 5 5 5))) (Vec3 40 0 0) (Vec3 5 5 5)"
    by (simp add: checkCollision_def overlap_def example_simps)
  moreover have
    "\<not> checkCollision (worldWith (blockAt (Vec3 20 0 0) (Vec3 5 5 5))) (Vec3 30 0 0) (Vec3 5 5 5)"
    by (simp add: checkCollision_def overlap_def example_simps)
  ultimately show ?thesis by blast
qed

theorem checkCollision_overlap_witness:
  "bodies (constructor (\<lambda>_. blockAt (Vec3 20 0 0) (Vec3 5 5 5)) 0) = [] \<and>
   \<not> checkCollision (constructor (\<lambda>_. blockAt (Vec3 20 0 0) (Vec3 5 5 5)) 0)
        (Vec3 20 0 0) (Vec3 5 5 5)"
  using checkCollision_overlap [of "constructor (\<lambda>_. blockAt (Vec3 20 0 0) (Vec3 5 5 5)) 0"
          "Vec3 20 0 0" "Vec3 5 5 5"]
  by (simp add: world_defs)

text \<open>
  Claim C7. \<^verbatim>\<open>getMaxHeight()\<close> is the greatest top-face height (centre Y plus half
  extent Y) over the dynamic bodies, and at least 0. A dynamic body is a registered body
  that the loop accepts (a block type, a box as first shape). On an empty world it is 0.
  Adding a block raises it to the maximum of the old value and the block's top; so right
  after one block of half extent 5 at centre height 40 is added to an empty world it is
  45.
\<close>

theorem getMaxHeight_greatest_top:
  "getMaxHeight s = Max (insert 0 (topFaces (heap s) (bodies s))) \<and>
   (bodies s = [] \<longrightarrow> getMaxHeight s = 0) \<and>
   (\<forall>bHalf. blockBox (heap s b) = Some bHalf \<longrightarrow>
      getMaxHeight (addBody b s) = max (getMaxHeight s) (vy (position (heap s b)) + vy bHalf)) \<and>
   (\<forall>bHalf. bodies s = [] \<and> blockBox (heap s b) = Some bHalf \<and> vy bHalf = 5 \<and>
      vy (position (heap s b)) = 40 \<longrightarrow> getMaxHeight (addBody b s) = 45)"
proof -
  have loop0: "max 0 (maxHeightLoop h bs 0) = maxHeightLoop h bs 0" for h bs
  proof -
    have "0 \<le> Max (insert 0 (topFaces h bs))"
      by (rule Max_ge) (simp_all add: finite_topFaces)
    then show ?thesis by (simp only: maxHeightLoop_Max max_absorb2)
  qed
  have c1: "getMaxHeight s = Max (insert 0 (topFaces (heap s) (bodies s)))"
    unfolding getMaxHeight_def loop0 by (rule maxHeightLoop_Max)
  have c2: "bodies s = [] \<longrightarrow> getMaxHeight s = 0"
    by (simp add: getMaxHeight_def)
  have app: "maxHeightLoop h (bs @ [x]) m = maxHeightLoop h [x] (maxHeightLoop h bs m)" for h bs x m
    by (induction bs arbitrary: m) (auto split: option.splits)
  have same: "maxHeightLoop (h(b := (h b)\<lparr> bmaterial := dm \<rparr>)) bs m = maxHeightLoop h bs m" for h bs m dm
    by (induction bs arbitrary: m) (auto simp: blockBox_material split: option.splits)
  have c3: "getMaxHeight (addBody b s) = max (getMaxHeight s) (vy (position (heap s b)) + vy bHalf)"
    if "blockBox (heap s b) = Some bHalf" for bHalf
    using that by (simp add: getMaxHeight_def addBody_def app same blockBox_material max.assoc)
  have c4: "getMaxHeight (addBody b s) = 45"
    if "bodies s = [] \<and> blockBox (heap s b) = Some bHalf \<and> vy bHalf = 5 \<and>
      vy (position (heap s b)) = 40" for bHalf
    using that c3 [of bHalf] c2 by simp
  from c1 c2 c3 c4 show ?thesis by blast
qed

theorem getMaxHeight_greatest_top_witness:
  "bodies (constructor (\<lambda>_. blockAt (Vec3 0 40 0) (Vec3 5 5 5)) 0) = [] \<and>
   blockBox (heap (constructor (\<lambda>_. blockAt (Vec3 0 40 0) (Vec3 5 5 5)) 0) 7) = Some (Vec3 5 5 5) \<and>
   vy (position (heap (constructor (\<lambda>_. blockAt (Vec3 0 40 0) (Vec3 5 5 5)) 0) 7)) = 40 \<and>
   getMaxHeight (constructor (\<lambda>_. blockAt (Vec3 0 40 0) (Vec3 5 5 5)) 0) = 0 \<and>
   getMaxHeight (addBody 7 (constructor (\<lambda>_. blockAt (Vec3 0 40 0) (Vec3 5 5 5)) 0)) = 45"
  using getMaxHeight_greatest_top [of "constructor (\<lambda>_. blockAt (Vec3 0 40 0) (Vec3 5 5 5)) 0" 7]
  by (simp add: constructor_def createGround_def Let_def blockBox_blockAt position_blockAt)

text \<open>
  Claim C8, as amended. The ground body is not in the registry after construction;
  \<^verbatim>\<open>removeBody\<close> and \<^verbatim>\<open>reset\<close> keep it out, and \<^verbatim>\<open>addBody(b)\<close> keeps it out whenever
  \<open>b\<close> is not the ground body itself (\<^verbatim>\<open>addBody\<close> does not check). While the ground
  body is out of the registry, none of the three operations removes it from the physics
  world. None of them changes the ground-body field.
\<close>

theorem ground_never_registered:
  "groundFree (constructor h g) \<and>
   (groundFree s \<and> groundBody s \<noteq> Some b \<longrightarrow> groundFree (addBody b s)) \<and>
   (groundFree s \<longrightarrow> groundFree (removeBody b s)) \<and>
   (groundFree s \<longrightarrow> groundFree (reset s)) \<and>
   (groundFree s \<and> groundBody s = Some g' \<and> g' \<in> world s \<longrightarrow>
      g' \<in> world (addBody b s) \<and> g' \<in> world (removeBody b s) \<and> g' \<in> world (reset s)) \<and>
   groundBody (addBody b s) = groundBody s \<and>
   groundBody (removeBody b s) = groundBody s \<and>
   groundBody (reset s) = groundBody s"
  by (auto simp: groundFree_def removeBody_eq reset_eq constructor_def createGround_def
        addBody_def Let_def split: option.splits dest: notin_set_remove1)

theorem ground_never_registered_witness:
  "groundFree (worldWith (blockAt (Vec3 0 40 0) (Vec3 5 5 5))) \<and>
   groundBody (worldWith (blockAt (Vec3 0 40 0) (Vec3 5 5 5))) = Some 0 \<and>
   groundBody (worldWith (blockAt (Vec3 0 40 0) (Vec3 5 5 5))) \<noteq> Some 3 \<and>
   0 \<in> world (worldWith (blockAt (Vec3 0 40 0) (Vec3 5 5 5))) \<and>
   groundFree (addBody 3 (worldWith (blockAt (Vec3 0 40 0) (Vec3 5 5 5)))) \<and>
   groundFree (removeBody 7 (worldWith (blockAt (Vec3 0 40 0) (Vec3 5 5 5)))) \<and>
   groundFree (reset (worldWith (blockAt (Vec3 0 40 0) (Vec3 5 5 5)))) \<and>
   0 \<in> world (removeBody 0 (worldWith (blockAt (Vec3 0 40 0) (Vec3 5 5 5)))) \<and>
   0 \<in> world (reset (worldWith (blockAt (Vec3 0 40 0) (Vec3 5 5 5))))"
  using ground_never_registered [of "\<lambda>_. blockAt (Vec3 0 40 0) (Vec3 5 5 5)" 0
          "worldWith (blockAt (Vec3 0 40 0) (Vec3 5 5 5))" 3 0]
        ground_never_registered [of "\<lambda>_. blockAt (Vec3 0 40 0) (Vec3 5 5 5)" 0
          "worldWith (blockAt (Vec3 0 40 0) (Vec3 5 5 5))" 7 0]
        ground_never_registered [of "\<lambda>_. blockAt (Vec3 0 40 0) (Vec3 5 5 5)" 0
          "worldWith (blockAt (Vec3 0 40 0) (Vec3 5 5 5))" 0 0]
  by (simp add: groundFree_def removeBody_eq reset_eq world_defs)

text \<open>
  The claim as stated fails when \<^verbatim>\<open>addBody\<close> is given the ground body: it becomes a
  member of the registry, and \<^verbatim>\<open>removeBody\<close> then removes it from the physics world.
\<close>

theorem ground_member_counterexample:
  "groundFree (constructor (\<lambda>_. blockAt (Vec3 0 40 0) (Vec3 5 5 5)) 0) \<and>
   groundBody (constructor (\<lambda>_. blockAt (Vec3 0 40 0) (Vec3 5 5 5)) 0) = Some 0 \<and>
   \<not> groundFree (addBody 0 (constructor (\<lambda>_. blockAt (Vec3 0 40 0) (Vec3 5 5 5)) 0)) \<and>
   0 \<in> set (bodies (addBody 0 (constructor (\<lambda>_. blockAt (Vec3 0 40 0) (Vec3 5 5 5)) 0))) \<and>
   0 \<notin> world (removeBody 0 (addBody 0 (constructor (\<lambda>_. blockAt (Vec3 0 40 0) (Vec3 5 5 5)) 0)))"
  by (simp add: groundFree_def removeBody_eq world_defs)

text \<open>
  Claim C9, as amended. \<^verbatim>\<open>removeBody(b)\<close> for a body that is not in the registry
  changes nothing (registry, physics world, heap). For a body that is in the registry it
  deletes the first occurrence from the registry, so that the body occurs once less, and
  removes the body from the physics world; a body that was registered once is then in
  neither.
\<close>

theorem removeBody_unknown_noop:
  "(b \<notin> set (bodies s) \<longrightarrow> removeBody b s = s) \<and>
   (b \<in> set (bodies s) \<longrightarrow>
      bodies (removeBody b s) = remove1 b (bodies s) \<and>
      count_list (bodies (removeBody b s)) b + 1 = count_list (bodies s) b \<and>
      world (removeBody b s) = world s - {b} \<and>
      b \<notin> world (removeBody b s) \<and>
      (count_list (bodies s) b = 1 \<longrightarrow> b \<notin> set (bodies (removeBody b s))) \<and>
      heap (removeBody b s) = heap s \<and>
      groundBody (removeBody b s) = groundBody s)"
proof (cases "b \<in> set (bodies s)")
  case True
  have "count_list (remove1 b (bodies s)) b + 1 = count_list (bodies s) b"
    using True by (rule count_list_remove1)
  moreover have "count_list (bodies s) b = 1 \<Longrightarrow> b \<notin> set (remove1 b (bodies s))"
    using calculation by (intro count_list_notin) simp
  ultimately show ?thesis using True by (simp add: removeBody_eq)
next
  case False
  then show ?thesis by (simp add: removeBody_eq)
qed

theorem removeBody_unknown_noop_witness:
  "3 \<notin> set (bodies (worldWith (blockAt (Vec3 0 40 0) (Vec3 5 5 5)))) \<and>
   removeBody 3 (worldWith (blockAt (Vec3 0 40 0) (Vec3 5 5 5))) =
     worldWith (blockAt (Vec3 0 40 0) (Vec3 5 5 5)) \<and>
   7 \<in> set (bodies (worldWith (blockAt (Vec3 0 40 0) (Vec3 5 5 5)))) \<and>
   count_list (bodies (worldWith (blockAt (Vec3 0 40 0) (Vec3 5 5 5)))) 7 = 1 \<and>
   7 \<notin> set (bodies (removeBody 7 (worldWith (blockAt (Vec3 0 40 0) (Vec3 5 5 5))))) \<and>
   7 \<notin> world (removeBody 7 (worldWith (blockAt (Vec3 0 40 0) (Vec3 5 5 5))))"
  using removeBody_unknown_noop [of 3 "worldWith (blockAt (Vec3 0 40 0) (Vec3 5 5 5))"]
        removeBody_unknown_noop [of 7 "worldWith (blockAt (Vec3 0 40 0) (Vec3 5 5 5))"]
  by (simp add: world_defs)

text \<open>
  The claim as stated fails for a body that was added twice: after one
  \<^verbatim>\<open>removeBody\<close> it is still in the registry.
\<close>

theorem removeBody_twice_counterexample:
  "7 \<in> set (bodies (addBody 7 (worldWith (blockAt (Vec3 0 40 0) (Vec3 5 5 5))))) \<and>
   7 \<in> set (bodies (removeBody 7 (addBody 7 (worldWith (blockAt (Vec3 0 40 0) (Vec3 5 5 5))))))"
  by (simp add: removeBody_eq world_defs)

text \<open>
  Claim C10. \<^verbatim>\<open>addBody(b)\<close> replaces the material of \<open>b\<close> by the world's default
  material and changes no other field of \<open>b\<close> and no other object; the default material
  and its contact material stay the same. In the constructed world the default material
  is paired with itself in a contact material of friction 0.5 and restitution 0.1. So
  every registered body carries the default material (after construction, and again
  after each \<^verbatim>\<open>addBody\<close>), and the friction 0.7, 0.6 or 0.5 that \<^verbatim>\<open>createBlockBody\<close> and
  \<^verbatim>\<open>createBlock\<close> give a foundation, office or spire body is no longer on the body once
  it is added.
\<close>

theorem addBody_default_material:
  "heap (addBody b s) = (heap s)(b := (heap s b)\<lparr> bmaterial := defaultMaterial s \<rparr>) \<and>
   bmaterial (heap (addBody b s) b) = defaultMaterial s \<and>
   mass (heap (addBody b s) b) = mass (heap s b) \<and>
   position (heap (addBody b s) b) = position (heap s b) \<and>
   shapes (heap (addBody b s) b) = shapes (heap s b) \<and>
   linearDamping (heap (addBody b s) b) = linearDamping (heap s b) \<and>
   angularDamping (heap (addBody b s) b) = angularDamping (heap s b) \<and>
   userData (heap (addBody b s) b) = userData (heap s b) \<and>
   defaultMaterial (addBody b s) = defaultMaterial s \<and>
   defaultContactMaterial (addBody b s) = defaultContactMaterial s \<and>
   defaultMaterial (constructor h g) = \<lparr> mname = ''default'', friction = None, restitution = None \<rparr> \<and>
   cm_first (defaultContactMaterial (constructor h g)) = defaultMaterial (constructor h g) \<and>
   cm_second (defaultContactMaterial (constructor h g)) = defaultMaterial (constructor h g) \<and>
   cm_friction (defaultContactMaterial (constructor h g)) = 5 / 10 \<and>
   cm_restitution (defaultContactMaterial (constructor h g)) = 1 / 10 \<and>
   allDefault (constructor h g) \<and>
   (allDefault s \<longrightarrow> allDefault (addBody b s)) \<and>
   (\<forall>bd. createBlockBody t pos = Some bd \<longrightarrow>
      friction (bmaterial bd) =
        Some (if t = ''foundation'' then 7 / 10 else if t = ''office'' then 6 / 10 else 5 / 10) \<and>
      (\<forall>m bd'. createBlock t pos m = Some bd' \<longrightarrow> bmaterial bd' = bmaterial bd) \<and>
      (heap s b = bd \<and> defaultMaterial s = defaultMaterial (constructor h g) \<longrightarrow>
         friction (bmaterial (heap (addBody b s) b)) = None))"
proof -
  have fields:
    "bmaterial (heap (addBody b s) b) = defaultMaterial s"
    "mass (heap (addBody b s) b) = mass (heap s b)"
    "position (heap (addBody b s) b) = position (heap s b)"
    "shapes (heap (addBody b s) b) = shapes (heap s b)"
    "linearDamping (heap (addBody b s) b) = linearDamping (heap s b)"
    "angularDamping (heap (addBody b s) b) = angularDamping (heap s b)"
    "userData (heap (addBody b s) b) = userData (heap s b)"
    by (simp_all add: heap_addBody)
  have same:
    "defaultMaterial (addBody b s) = defaultMaterial s"
    "defaultContactMaterial (addBody b s) = defaultContactMaterial s"
    by (simp_all add: addBody_def)
  have contact:
    "cm_first (defaultContactMaterial (constructor h g)) = defaultMaterial (constructor h g)"
    "cm_second (defaultContactMaterial (constructor h g)) = defaultMaterial (constructor h g)"
    "cm_friction (defaultContactMaterial (constructor h g)) = 5 / 10"
    "cm_restitution (defaultContactMaterial (constructor h g)) = 1 / 10"
    by (simp_all add: constructor_material)
  have lost: "friction (bmaterial (heap (addBody b s) b)) = None"
    if "defaultMaterial s = defaultMaterial (constructor h g)"
    using that by (simp add: fields(1) constructor_material(1))
  show ?thesis
    using heap_addBody [of b s] fields same contact constructor_material(1) [of h g]
      allDefault_constructor [of h g] allDefault_addBody [of s b]
      createBlockBody_friction [of t pos] createBlock_material [of t pos] lost
    by blast
qed

theorem addBody_default_material_witness:
  "createBlockBody ''foundation'' (Vec3 0 50 0) \<noteq> None \<and>
   allDefault (constructor (\<lambda>_. the (createBlockBody ''foundation'' (Vec3 0 50 0))) 0) \<and>
   friction (bmaterial (heap (constructor (\<lambda>_. the (createBlockBody ''foundation'' (Vec3 0 50 0))) 0) 7))
     = Some (7 / 10) \<and>
   friction (bmaterial (heap (addBody 7
       (constructor (\<lambda>_. the (createBlockBody ''foundation'' (Vec3 0 50 0))) 0)) 7)) = None \<and>
   allDefault (addBody 7 (constructor (\<lambda>_. the (createBlockBody ''foundation'' (Vec3 0 50 0))) 0))"
  using addBody_default_material [of 7
          "constructor (\<lambda>_. the (createBlockBody ''foundation'' (Vec3 0 50 0))) 0"
          "\<lambda>_. the (createBlockBody ''foundation'' (Vec3 0 50 0))" 0 "''foundation''" "Vec3 0 50 0"]
  by (simp add: createBlockBody_def BLOCK_TYPES_def constructor_def createGround_def Let_def)

end
